theory Spec2Isabelle
  imports Main "HOL-Library.Word"
begin

section \<open>Data model\<close>

text \<open>
  Python \<open>bytes\<close> are sequences of integers in \<open>[0, 255]\<close>: lists of 8-bit words.
  Python integers are unbounded: \<open>int\<close>.
\<close>

type_synonym byte = "8 word"
type_synonym bytes = "byte list"

text \<open>\<open>interface.py\<close>, class \<open>RaisePolicy\<close>.\<close>

datatype RaisePolicy = RAISE_NOTHING | RAISE_ALL_BUT_0x9000 | RAISE_ALL

text \<open>
  Modelled from the spec: \<open>RAPDU\<close> is declared in \<open>ragger.utils\<close>, which is not among the
  sources. The spec's Response Frame is a status word and a payload; the code builds it as
  \<open>RAPDU(status, data)\<close> and reads \<open>rapdu.status\<close> and \<open>rapdu.data\<close>.
\<close>

record RAPDU =
  status :: int
  data :: bytes

text \<open>
  The exceptions the two modules raise or let through. \<open>ExceptionRAPDU\<close>
  (\<open>ragger.error\<close>, the spec's \<open>DeviceRejected\<close>) and \<open>CommException\<close> (the
  \<open>ledgerwallet\<close> library) both carry a status word and a payload. \<open>FrameTooLarge\<close> is the
  spec's name for the failure of \<open>pack_APDU\<close>. \<open>OtherException\<close> stands for any other
  exception the \<open>ledgerwallet\<close> library raises.
\<close>

datatype error =
    AttributeError string
  | AssertionError
  | FrameTooLarge
  | ExceptionRAPDU int bytes
  | CommException int bytes
  | OtherException string

text \<open>
  A logger with its handlers and the records it has emitted so far. The APDU logger
  emits \<open>"=> %s"\<close> with the hexadecimal of the bytes sent and \<open>"<= %s%4x"\<close> with the
  hexadecimal of the payload and the status received; the records keep the arguments.
\<close>

datatype handler = StreamHandler | FileHandler string

datatype log_record = Debug_out bytes | Debug_in bytes int | Info string

record logger =
  handlers :: "handler list"
  records :: "log_record list"

text \<open>
  The client object of the \<open>ledgerwallet\<close> library: an identity, and whether its
  \<open>device\<close> is a \<open>HidDevice\<close> (\<open>receive\<close> tests it with \<open>isinstance\<close>).
\<close>

datatype device_kind = HidDevice | OtherDevice

record LedgerClient =
  client_id :: nat
  device :: device_kind

text \<open>
  The attributes of a \<open>LedgerWalletBackend\<close> instance. \<open>BackendInterface.__init__\<close>
  assigns \<open>_firmware\<close>, \<open>_last_async_response\<close>, \<open>raise_policy\<close> and \<open>apdu_logger\<close>;
  \<open>LedgerWalletBackend.__init__\<close> adds \<open>_client\<close>. The attribute \<open>logger\<close> is read by
  \<open>__enter__\<close> and \<open>handle_usb_reset\<close> but assigned by neither constructor: \<open>None\<close> is
  the attribute being absent, and reading it then raises \<open>AttributeError\<close>.
\<close>

type_synonym Firmware = string

record backend =
  firmware :: Firmware
  last_async_response :: "RAPDU option"
  raise_policy :: RaisePolicy
  apdu_logger :: logger
  logger :: "logger option"
  client :: "LedgerClient option"

section \<open>The transport\<close>

text \<open>
  The \<open>ledgerwallet\<close> library and the device behind it are outside the repository: their
  behaviour is a parameter, a record of operations over a device state \<open>'d\<close>. Each
  operation returns a result or raises.
\<close>

record 'd ledgerwallet =
  lw_LedgerClient :: "'d \<Rightarrow> (error + LedgerClient) \<times> 'd"
  lw_close :: "LedgerClient \<Rightarrow> 'd \<Rightarrow> (error + unit) \<times> 'd"
  lw_write :: "LedgerClient \<Rightarrow> bytes \<Rightarrow> 'd \<Rightarrow> (error + unit) \<times> 'd"
  lw_read :: "LedgerClient \<Rightarrow> nat option \<Rightarrow> 'd \<Rightarrow> (error + bytes) \<times> 'd"
  lw_raw_exchange :: "LedgerClient \<Rightarrow> bytes \<Rightarrow> 'd \<Rightarrow> (error + bytes) \<times> 'd"

text \<open>
  The world outside the backend: the device state, and the calls made to the library and
  to \<open>sleep\<close>, in the order they were made.
\<close>

datatype call =
    Call_LedgerClient
  | Call_sleep nat
  | Call_close LedgerClient
  | Call_write LedgerClient bytes
  | Call_read LedgerClient "nat option"
  | Call_raw_exchange LedgerClient bytes

record 'd world =
  dev :: 'd
  calls :: "call list"

type_synonym 'd state = "backend \<times> 'd world"

definition call_LedgerClient :: "'d ledgerwallet \<Rightarrow> 'd world \<Rightarrow> (error + LedgerClient) \<times> 'd world" where
  "call_LedgerClient lib w =
     (case lw_LedgerClient lib (dev w) of
        (r, d) \<Rightarrow> (r, w\<lparr>dev := d, calls := calls w @ [Call_LedgerClient]\<rparr>))"

definition call_sleep :: "nat \<Rightarrow> 'd world \<Rightarrow> 'd world" where
  "call_sleep n w = w\<lparr>calls := calls w @ [Call_sleep n]\<rparr>"

definition call_close :: "'d ledgerwallet \<Rightarrow> LedgerClient \<Rightarrow> 'd world \<Rightarrow> (error + unit) \<times> 'd world" where
  "call_close lib c w =
     (case lw_close lib c (dev w) of
        (r, d) \<Rightarrow> (r, w\<lparr>dev := d, calls := calls w @ [Call_close c]\<rparr>))"

definition call_write :: "'d ledgerwallet \<Rightarrow> LedgerClient \<Rightarrow> bytes \<Rightarrow> 'd world \<Rightarrow> (error + unit) \<times> 'd world" where
  "call_write lib c apdu w =
     (case lw_write lib c apdu (dev w) of
        (r, d) \<Rightarrow> (r, w\<lparr>dev := d, calls := calls w @ [Call_write c apdu]\<rparr>))"

definition call_read :: "'d ledgerwallet \<Rightarrow> LedgerClient \<Rightarrow> nat option \<Rightarrow> 'd world \<Rightarrow> (error + bytes) \<times> 'd world" where
  "call_read lib c t w =
     (case lw_read lib c t (dev w) of
        (r, d) \<Rightarrow> (r, w\<lparr>dev := d, calls := calls w @ [Call_read c t]\<rparr>))"

definition call_raw_exchange :: "'d ledgerwallet \<Rightarrow> LedgerClient \<Rightarrow> bytes \<Rightarrow> 'd world \<Rightarrow> (error + bytes) \<times> 'd world" where
  "call_raw_exchange lib c apdu w =
     (case lw_raw_exchange lib c apdu (dev w) of
        (r, d) \<Rightarrow> (r, w\<lparr>dev := d, calls := calls w @ [Call_raw_exchange c apdu]\<rparr>))"

section \<open>interface.py: BackendInterface\<close>

text \<open>
  \<open>__init__\<close>. \<open>logging.getLogger("apdu_logger")\<close> returns the process-wide logger of
  that name, here \<open>apdu0\<close>; the constructor adds a stream handler to it and, when a log
  file is given, a file handler. \<open>LedgerWalletBackend.__init__\<close> then sets \<open>_client\<close> to
  \<open>None\<close>. No \<open>logger\<close> attribute is assigned.
\<close>

definition init :: "logger \<Rightarrow> Firmware \<Rightarrow> string option \<Rightarrow> backend" where
  "init apdu0 fw log_apdu_file =
     \<lparr>firmware = fw,
      last_async_response = None,
      raise_policy = RAISE_ALL_BUT_0x9000,
      apdu_logger = apdu0\<lparr>handlers := handlers apdu0 @ [StreamHandler] @
         (case log_apdu_file of None \<Rightarrow> [] | Some f \<Rightarrow> [FileHandler f])\<rparr>,
      logger = None,
      client = None\<rparr>"

definition is_raise_required :: "backend \<Rightarrow> RAPDU \<Rightarrow> bool" where
  "is_raise_required self rapdu =
     ((raise_policy self = RAISE_ALL)
      \<or> ((raise_policy self = RAISE_ALL_BUT_0x9000) \<and> (status rapdu \<noteq> 0x9000)))"

text \<open>
  Modelled from the spec: \<open>pack_APDU\<close> is defined in \<open>ragger.utils\<close>, which is not among
  the sources. The spec's \<open>encode\<close> produces
  \<open>class_id || instruction_id || param1 || param2 || len(payload) || payload\<close>, each of the
  four header fields one byte, and fails with \<open>FrameTooLarge\<close> if \<open>len(payload) > 255\<close>.
\<close>

definition pack_APDU :: "byte \<Rightarrow> byte \<Rightarrow> byte \<Rightarrow> byte \<Rightarrow> bytes \<Rightarrow> error + bytes" where
  "pack_APDU cla ins p1 p2 payload =
     (if length payload > 255 then Inl FrameTooLarge
      else Inr ([cla, ins, p1, p2, of_nat (length payload)] @ payload))"

section \<open>ledgerwallet.py: LedgerWalletBackend\<close>

definition apdu_logger_debug :: "log_record \<Rightarrow> backend \<Rightarrow> backend" where
  "apdu_logger_debug r self =
     self\<lparr>apdu_logger := (apdu_logger self)\<lparr>records := records (apdu_logger self) @ [r]\<rparr>\<rparr>"

text \<open>\<open>self.logger.info(msg)\<close>: the attribute is looked up first.\<close>

definition logger_info :: "string \<Rightarrow> backend \<Rightarrow> error + backend" where
  "logger_info msg self =
     (case logger self of
        None \<Rightarrow> Inl (AttributeError ''logger'')
      | Some lg \<Rightarrow> Inr (self\<lparr>logger := Some (lg\<lparr>records := records lg @ [Info msg]\<rparr>)\<rparr>))"

text \<open>\<open>int.from_bytes(bs, "big")\<close>.\<close>

definition from_bytes_big :: "bytes \<Rightarrow> int" where
  "from_bytes_big bs = foldl (\<lambda>acc b. acc * 256 + uint b) 0 bs"

text \<open>
  The expression both \<open>receive\<close> and \<open>exchange_raw\<close> build their result with:
  \<open>RAPDU(int.from_bytes(raw_result[-2:], "big"), raw_result[:-2] or b"")\<close>.
  The slice \<open>[-2:]\<close> is the last two bytes, or the whole of a shorter sequence; the slice
  \<open>[:-2]\<close> is all but the last two bytes, empty for a shorter sequence.
\<close>

definition decode :: "bytes \<Rightarrow> RAPDU" where
  "decode raw_result =
     \<lparr>status = from_bytes_big (drop (length raw_result - 2) raw_result),
      data = (let p = take (length raw_result - 2) raw_result in if p = [] then [] else p)\<rparr>"

text \<open>The \<open>except CommException\<close> clause of \<open>raise_policy_enforcer\<close>.\<close>

fun catch_CommException :: "error + RAPDU \<Rightarrow> error + RAPDU" where
  "catch_CommException (Inl (CommException sw dat)) = Inr \<lparr>status = sw, data = dat\<rparr>"
| "catch_CommException r = r"

definition raise_policy_enforcer ::
  "('d state \<Rightarrow> (error + RAPDU) \<times> 'd state) \<Rightarrow> 'd state \<Rightarrow> (error + RAPDU) \<times> 'd state" where
  "raise_policy_enforcer function s =
     (case function s of
        (r, self, w) \<Rightarrow>
          (case catch_CommException r of
             Inl e \<Rightarrow> (Inl e, self, w)
           | Inr rapdu \<Rightarrow>
               (let self' = apdu_logger_debug (Debug_in (data rapdu) (status rapdu)) self in
                if is_raise_required self' rapdu
                then (Inl (ExceptionRAPDU (status rapdu) (data rapdu)), self', w)
                else (Inr rapdu, self', w))))"

text \<open>\<open>__enter__\<close>: one retry of the constructor, after \<open>sleep(1)\<close>.\<close>

definition enter :: "'d ledgerwallet \<Rightarrow> 'd state \<Rightarrow> (error + unit) \<times> 'd state" where
  "enter lib s =
     (case s of (self, w) \<Rightarrow>
        (case logger_info ''Starting LedgerWalletBackend stream'' self of
           Inl e \<Rightarrow> (Inl e, self, w)
         | Inr self1 \<Rightarrow>
             (case call_LedgerClient lib w of
                (Inr c, w1) \<Rightarrow> (Inr (), self1\<lparr>client := Some c\<rparr>, w1)
              | (Inl _, w1) \<Rightarrow>
                  (case call_LedgerClient lib (call_sleep 1 w1) of
                     (Inr c, w2) \<Rightarrow> (Inr (), self1\<lparr>client := Some c\<rparr>, w2)
                   | (Inl e, w2) \<Rightarrow> (Inl e, self1, w2)))))"

text \<open>\<open>__exit__\<close>.\<close>

definition exit_backend :: "'d ledgerwallet \<Rightarrow> 'd state \<Rightarrow> (error + unit) \<times> 'd state" where
  "exit_backend lib s =
     (case s of (self, w) \<Rightarrow>
        (case client self of
           None \<Rightarrow> (Inl AssertionError, self, w)
         | Some c \<Rightarrow> (case call_close lib c w of (r, w1) \<Rightarrow> (r, self, w1))))"

definition handle_usb_reset :: "'d ledgerwallet \<Rightarrow> 'd state \<Rightarrow> (error + unit) \<times> 'd state" where
  "handle_usb_reset lib s =
     (case s of (self, w) \<Rightarrow>
        (case logger_info ''Re-starting LedgerWalletBackend stream'' self of
           Inl e \<Rightarrow> (Inl e, self, w)
         | Inr self1 \<Rightarrow>
             (case exit_backend lib (self1, w) of
                (Inl e, s1) \<Rightarrow> (Inl e, s1)
              | (Inr _, s1) \<Rightarrow> enter lib s1)))"

definition send_raw :: "'d ledgerwallet \<Rightarrow> bytes \<Rightarrow> 'd state \<Rightarrow> (error + unit) \<times> 'd state" where
  "send_raw lib apdu s =
     (case s of (self, w) \<Rightarrow>
        (let self1 = apdu_logger_debug (Debug_out apdu) self in
         case client self1 of
           None \<Rightarrow> (Inl AssertionError, self1, w)
         | Some c \<Rightarrow> (case call_write lib c apdu w of (r, w1) \<Rightarrow> (r, self1, w1))))"

text \<open>The body of \<open>receive\<close>, before the decorator.\<close>

definition receive_undecorated :: "'d ledgerwallet \<Rightarrow> 'd state \<Rightarrow> (error + RAPDU) \<times> 'd state" where
  "receive_undecorated lib s =
     (case s of (self, w) \<Rightarrow>
        (case client self of
           None \<Rightarrow> (Inl AssertionError, self, w)
         | Some c \<Rightarrow>
             (case call_read lib c (if device c = HidDevice then Some 1000 else None) w of
                (Inl e, w1) \<Rightarrow> (Inl e, self, w1)
              | (Inr raw_result, w1) \<Rightarrow> (Inr (decode raw_result), self, w1))))"

definition receive :: "'d ledgerwallet \<Rightarrow> 'd state \<Rightarrow> (error + RAPDU) \<times> 'd state" where
  "receive lib = raise_policy_enforcer (receive_undecorated lib)"

text \<open>The body of \<open>exchange_raw\<close>, before the decorator.\<close>

definition exchange_raw_undecorated ::
  "'d ledgerwallet \<Rightarrow> bytes \<Rightarrow> 'd state \<Rightarrow> (error + RAPDU) \<times> 'd state" where
  "exchange_raw_undecorated lib apdu s =
     (case s of (self, w) \<Rightarrow>
        (let self1 = apdu_logger_debug (Debug_out apdu) self in
         case client self1 of
           None \<Rightarrow> (Inl AssertionError, self1, w)
         | Some c \<Rightarrow>
             (case call_raw_exchange lib c apdu w of
                (Inl e, w1) \<Rightarrow> (Inl e, self1, w1)
              | (Inr raw_result, w1) \<Rightarrow> (Inr (decode raw_result), self1, w1))))"

definition exchange_raw :: "'d ledgerwallet \<Rightarrow> bytes \<Rightarrow> 'd state \<Rightarrow> (error + RAPDU) \<times> 'd state" where
  "exchange_raw lib apdu = raise_policy_enforcer (exchange_raw_undecorated lib apdu)"

text \<open>
  \<open>exchange_async_raw\<close> is a generator-based context manager: the code before \<open>yield\<close>
  runs on entry to the \<open>with\<close> statement, then the caller's block runs, and the code
  after \<open>yield\<close> runs when the block exits normally. An exception raised by the block
  is thrown into the generator at \<open>yield\<close>, where nothing catches it. The block is a
  state transformer that returns or raises.
\<close>

definition exchange_async_raw ::
  "'d ledgerwallet \<Rightarrow> bytes \<Rightarrow> ('d state \<Rightarrow> (error + unit) \<times> 'd state) \<Rightarrow> 'd state
     \<Rightarrow> (error + unit) \<times> 'd state" where
  "exchange_async_raw lib apdu block s =
     (case send_raw lib apdu s of
        (Inl e, s1) \<Rightarrow> (Inl e, s1)
      | (Inr _, s1) \<Rightarrow>
          (case block s1 of
             (Inl e, s2) \<Rightarrow> (Inl e, s2)
           | (Inr _, s2) \<Rightarrow>
               (case receive lib s2 of
                  (Inl e, s3) \<Rightarrow> (Inl e, s3)
                | (Inr rapdu, self3, w3) \<Rightarrow>
                    (Inr (), self3\<lparr>last_async_response := Some rapdu\<rparr>, w3))))"

section \<open>interface.py: the operations derived from the raw ones\<close>

definition send ::
  "'d ledgerwallet \<Rightarrow> byte \<Rightarrow> byte \<Rightarrow> byte \<Rightarrow> byte \<Rightarrow> bytes \<Rightarrow> 'd state \<Rightarrow> (error + unit) \<times> 'd state" where
  "send lib cla ins p1 p2 payload s =
     (case pack_APDU cla ins p1 p2 payload of
        Inl e \<Rightarrow> (Inl e, s)
      | Inr apdu \<Rightarrow> send_raw lib apdu s)"

definition exchange ::
  "'d ledgerwallet \<Rightarrow> byte \<Rightarrow> byte \<Rightarrow> byte \<Rightarrow> byte \<Rightarrow> bytes \<Rightarrow> 'd state \<Rightarrow> (error + RAPDU) \<times> 'd state" where
  "exchange lib cla ins p1 p2 payload s =
     (case pack_APDU cla ins p1 p2 payload of
        Inl e \<Rightarrow> (Inl e, s)
      | Inr apdu \<Rightarrow> exchange_raw lib apdu s)"

definition exchange_async ::
  "'d ledgerwallet \<Rightarrow> byte \<Rightarrow> byte \<Rightarrow> byte \<Rightarrow> byte \<Rightarrow> bytes
     \<Rightarrow> ('d state \<Rightarrow> (error + unit) \<times> 'd state) \<Rightarrow> 'd state \<Rightarrow> (error + unit) \<times> 'd state" where
  "exchange_async lib cla ins p1 p2 payload block s =
     (case pack_APDU cla ins p1 p2 payload of
        Inl e \<Rightarrow> (Inl e, s)
      | Inr apdu \<Rightarrow> exchange_async_raw lib apdu block s)"

text \<open>
  The user-interface operations of \<open>LedgerWalletBackend\<close>. A path is a string; the crop
  options (\<open>ragger.utils.Crop\<close>) and the floating-point delays are never inspected, so
  their types are left open.
\<close>

definition right_click :: "'d state \<Rightarrow> unit \<times> 'd state" where
  "right_click s = ((), s)"

definition left_click :: "'d state \<Rightarrow> unit \<times> 'd state" where
  "left_click s = ((), s)"

definition both_click :: "'d state \<Rightarrow> unit \<times> 'd state" where
  "both_click s = ((), s)"

definition compare_screen_with_snapshot ::
  "string \<Rightarrow> 'crop option \<Rightarrow> string option \<Rightarrow> bool \<Rightarrow> 'd state \<Rightarrow> bool \<times> 'd state" where
  "compare_screen_with_snapshot golden_snap_path crop tmp_snap_path golden_run s = (True, s)"

definition finger_touch :: "int \<Rightarrow> int \<Rightarrow> 'delay \<Rightarrow> 'd state \<Rightarrow> unit \<times> 'd state" where
  "finger_touch x y delay s = ((), s)"

definition wait_for_screen_change :: "'timeout \<Rightarrow> 'd state \<Rightarrow> unit \<times> 'd state" where
  "wait_for_screen_change timeout s = ((), s)"

definition compare_screen_with_text :: "string \<Rightarrow> 'd state \<Rightarrow> bool \<times> 'd state" where
  "compare_screen_with_text txt s = (True, s)"

definition get_current_screen_content :: "'d state \<Rightarrow> 'content list \<times> 'd state" where
  "get_current_screen_content s = ([], s)"

section \<open>A fake transport\<close>

text \<open>
  The transports of the spec's testable properties, used to run the operations on
  concrete inputs. The device answers a frame \<open>apdu\<close> with \<open>respond apdu\<close>: at once
  through \<open>raw_exchange\<close>, or queued by \<open>write\<close> and handed out by \<open>read\<close>. The
  constructor of the client fails as many times as \<open>failures\<close> says, then succeeds.
\<close>

record fake_device =
  pending :: "(error + bytes) list"
  failures :: nat

definition fake_client :: LedgerClient where
  "fake_client = \<lparr>client_id = 0, device = HidDevice\<rparr>"

definition fake_lib :: "(bytes \<Rightarrow> error + bytes) \<Rightarrow> fake_device ledgerwallet" where
  "fake_lib respond =
     \<lparr>lw_LedgerClient = (\<lambda>d. if failures d > 0
          then (Inl (OtherException ''no device''), d\<lparr>failures := failures d - 1\<rparr>)
          else (Inr fake_client, d)),
      lw_close = (\<lambda>c d. (Inr (), d)),
      lw_write = (\<lambda>c apdu d. (Inr (), d\<lparr>pending := pending d @ [respond apdu]\<rparr>)),
      lw_read = (\<lambda>c t d. case pending d of
          [] \<Rightarrow> (Inl (OtherException ''timeout''), d)
        | r # rs \<Rightarrow> (r, d\<lparr>pending := rs\<rparr>)),
      lw_raw_exchange = (\<lambda>c apdu d. (respond apdu, d))\<rparr>"

definition fake_world :: "nat \<Rightarrow> fake_device world" where
  "fake_world n = \<lparr>dev = \<lparr>pending = [], failures = n\<rparr>, calls = []\<rparr>"

text \<open>A backend as its constructor builds it, and one whose \<open>_client\<close> is set.\<close>

definition new_backend :: backend where
  "new_backend = init \<lparr>handlers = [], records = []\<rparr> ''nanos'' None"

definition open_backend :: backend where
  "open_backend = new_backend\<lparr>client := Some fake_client\<rparr>"

text \<open>
  The echoing transport of the spec's round-trip and exchange-composition properties: it
  answers an encoded command with its payload (the frame without its five header bytes)
  followed by the two bytes of a status word, most significant first.
\<close>

definition transport_echo :: "16 word \<Rightarrow> bytes \<Rightarrow> bytes" where
  "transport_echo sw frame = drop 5 frame @ [ucast (drop_bit 8 sw), ucast sw]"

section \<open>Auxiliary facts\<close>

lemma is_raise_required_debug [simp]:
  "is_raise_required (apdu_logger_debug r self) rapdu = is_raise_required self rapdu"
  by (simp add: is_raise_required_def apdu_logger_debug_def)

lemma client_debug [simp]: "client (apdu_logger_debug r self) = client self"
  by (simp add: apdu_logger_debug_def)

lemma last_async_response_debug [simp]:
  "last_async_response (apdu_logger_debug r self) = last_async_response self"
  by (simp add: apdu_logger_debug_def)

lemma raise_policy_debug [simp]: "raise_policy (apdu_logger_debug r self) = raise_policy self"
  by (simp add: apdu_logger_debug_def)

lemma from_bytes_big_two: "from_bytes_big [hi, lo] = uint hi * 256 + uint lo"
  by (simp add: from_bytes_big_def)

lemma status_word_bytes:
  "uint (ucast (drop_bit 8 (sw :: 16 word)) :: 8 word) * 256 + uint (ucast sw :: 8 word) = uint sw"
proof -
  have lt: "uint sw < 65536" using uint_lt2p [of sw] by simp
  have ge: "0 \<le> uint sw" by simp
  have a: "uint (ucast sw :: 8 word) = uint sw mod 256"
    by (simp add: unsigned_ucast_eq take_bit_eq_mod)
  have b: "uint (ucast (drop_bit 8 sw) :: 8 word) = uint sw div 256"
  proof -
    have "uint sw div 256 < 256" using lt by arith
    moreover have "0 \<le> uint sw div 256" using ge by arith
    ultimately have "uint sw div 256 mod 256 = uint sw div 256" by simp
    then show ?thesis
      by (simp add: unsigned_ucast_eq take_bit_eq_mod drop_bit_eq_div uint_div)
  qed
  show ?thesis unfolding a b by simp
qed

lemma decode_append_two:
  "decode (payload @ [hi, lo]) = \<lparr>status = uint hi * 256 + uint lo, data = payload\<rparr>"
  by (simp add: decode_def from_bytes_big_two)

lemma receive_Inr:
  assumes "client self = Some c"
    and "lw_read lib c (if device c = HidDevice then Some 1000 else None) (dev w) = (Inr raw, d)"
  shows "receive lib (self, w) =
     (if is_raise_required self (decode raw)
      then Inl (ExceptionRAPDU (status (decode raw)) (data (decode raw)))
      else Inr (decode raw),
      apdu_logger_debug (Debug_in (data (decode raw)) (status (decode raw))) self,
      w\<lparr>dev := d, calls := calls w @ [Call_read c (if device c = HidDevice then Some 1000 else None)]\<rparr>)"
  using assms
  by (simp add: receive_def raise_policy_enforcer_def receive_undecorated_def call_read_def Let_def)

lemma receive_CommException:
  assumes "client self = Some c"
    and "lw_read lib c (if device c = HidDevice then Some 1000 else None) (dev w)
           = (Inl (CommException sw dat), d)"
  shows "receive lib (self, w) =
     (if is_raise_required self \<lparr>status = sw, data = dat\<rparr>
      then Inl (ExceptionRAPDU sw dat)
      else Inr \<lparr>status = sw, data = dat\<rparr>,
      apdu_logger_debug (Debug_in dat sw) self,
      w\<lparr>dev := d, calls := calls w @ [Call_read c (if device c = HidDevice then Some 1000 else None)]\<rparr>)"
  using assms
  by (simp add: receive_def raise_policy_enforcer_def receive_undecorated_def call_read_def Let_def)

lemma exchange_raw_Inr:
  assumes "client self = Some c"
    and "lw_raw_exchange lib c apdu (dev w) = (Inr raw, d)"
  shows "exchange_raw lib apdu (self, w) =
     (if is_raise_required self (decode raw)
      then Inl (ExceptionRAPDU (status (decode raw)) (data (decode raw)))
      else Inr (decode raw),
      apdu_logger_debug (Debug_in (data (decode raw)) (status (decode raw)))
        (apdu_logger_debug (Debug_out apdu) self),
      w\<lparr>dev := d, calls := calls w @ [Call_raw_exchange c apdu]\<rparr>)"
  using assms
  by (simp add: exchange_raw_def raise_policy_enforcer_def exchange_raw_undecorated_def
      call_raw_exchange_def Let_def)

lemma exchange_raw_CommException:
  assumes "client self = Some c"
    and "lw_raw_exchange lib c apdu (dev w) = (Inl (CommException sw dat), d)"
  shows "exchange_raw lib apdu (self, w) =
     (if is_raise_required self \<lparr>status = sw, data = dat\<rparr>
      then Inl (ExceptionRAPDU sw dat)
      else Inr \<lparr>status = sw, data = dat\<rparr>,
      apdu_logger_debug (Debug_in dat sw) (apdu_logger_debug (Debug_out apdu) self),
      w\<lparr>dev := d, calls := calls w @ [Call_raw_exchange c apdu]\<rparr>)"
  using assms
  by (simp add: exchange_raw_def raise_policy_enforcer_def exchange_raw_undecorated_def
      call_raw_exchange_def Let_def)

lemma decode_short:
  assumes "length raw < 2"
  shows "decode raw = \<lparr>status = (case raw of [] \<Rightarrow> 0 | b # _ \<Rightarrow> uint b), data = []\<rparr>"
proof (cases raw)
  case Nil
  then show ?thesis by (simp add: decode_def from_bytes_big_def)
next
  case (Cons b bs)
  with assms have "bs = []" by simp
  with Cons show ?thesis by (simp add: decode_def from_bytes_big_def)
qed

lemma send_raw_Inr:
  assumes "client self = Some c" and "lw_write lib c apdu (dev w) = (r, d)"
  shows "send_raw lib apdu (self, w) =
     (r, apdu_logger_debug (Debug_out apdu) self,
      w\<lparr>dev := d, calls := calls w @ [Call_write c apdu]\<rparr>)"
  using assms by (simp add: send_raw_def call_write_def Let_def)

lemma logger_init: "logger (init apdu0 fw log_apdu_file) = None"
  by (simp add: init_def)

lemma send_raw_returns:
  assumes "send_raw lib apdu s = (Inr (), s1)"
  shows "(\<exists>c. client (fst s) = Some c \<and> calls (snd s1) = calls (snd s) @ [Call_write c apdu])
       \<and> last_async_response (fst s1) = last_async_response (fst s)"
  using assms
  by (cases s) (auto simp add: send_raw_def call_write_def Let_def split: option.splits prod.splits)

lemma receive_keeps_last_async_response:
  "last_async_response (fst (snd (receive lib s))) = last_async_response (fst s)"
proof (cases s)
  case (Pair self w)
  show ?thesis
  proof (cases "client self")
    case None
    with Pair show ?thesis
      by (simp add: receive_def raise_policy_enforcer_def receive_undecorated_def)
  next
    case (Some c)
    obtain r d where rd: "lw_read lib c (if device c = HidDevice then Some 1000 else None) (dev w) = (r, d)"
      by (cases "lw_read lib c (if device c = HidDevice then Some 1000 else None) (dev w)")
    show ?thesis
    proof (cases r)
      case (Inr raw)
      with Pair Some rd show ?thesis by (simp add: receive_Inr)
    next
      case (Inl e)
      with Pair Some rd show ?thesis
        by (cases e)
          (simp_all add: receive_def raise_policy_enforcer_def receive_undecorated_def
            call_read_def Let_def)
    qed
  qed
qed

text \<open>
  What \<open>__enter__\<close> and \<open>handle_usb_reset\<close> do on a backend that does have a \<open>logger\<close>
  attribute (one assigned from outside the class): the first attempt, the single retry
  after \<open>sleep(1)\<close>, and the second failure passed on.
\<close>

lemma enter_with_logger:
  assumes "logger self = Some lg"
    and "self1 = self\<lparr>logger := Some (lg\<lparr>records := records lg @ [Info ''Starting LedgerWalletBackend stream'']\<rparr>)\<rparr>"
  shows "lw_LedgerClient lib (dev w) = (Inr c, d1) \<Longrightarrow>
           enter lib (self, w) =
             (Inr (), self1\<lparr>client := Some c\<rparr>, w\<lparr>dev := d1, calls := calls w @ [Call_LedgerClient]\<rparr>)"
    and "lw_LedgerClient lib (dev w) = (Inl e1, d1) \<Longrightarrow> lw_LedgerClient lib d1 = (Inr c, d2) \<Longrightarrow>
           enter lib (self, w) =
             (Inr (), self1\<lparr>client := Some c\<rparr>,
              w\<lparr>dev := d2, calls := calls w @ [Call_LedgerClient, Call_sleep 1, Call_LedgerClient]\<rparr>)"
    and "lw_LedgerClient lib (dev w) = (Inl e1, d1) \<Longrightarrow> lw_LedgerClient lib d1 = (Inl e2, d2) \<Longrightarrow>
           enter lib (self, w) =
             (Inl e2, self1,
              w\<lparr>dev := d2, calls := calls w @ [Call_LedgerClient, Call_sleep 1, Call_LedgerClient]\<rparr>)"
  using assms
  by (simp_all add: enter_def logger_info_def call_LedgerClient_def call_sleep_def)

lemma handle_usb_reset_with_logger:
  assumes "logger self = Some lg"
    and "client self = Some c"
    and "lw_close lib c (dev w) = (Inr (), d1)"
    and "lw_LedgerClient lib d1 = (Inr c', d2)"
  shows "handle_usb_reset lib (self, w) =
     (Inr (),
      self\<lparr>logger := Some (lg\<lparr>records := records lg @
          [Info ''Re-starting LedgerWalletBackend stream'', Info ''Starting LedgerWalletBackend stream'']\<rparr>),
        client := Some c'\<rparr>,
      w\<lparr>dev := d2, calls := calls w @ [Call_close c, Call_LedgerClient]\<rparr>)"
  using assms
  by (simp add: handle_usb_reset_def exit_backend_def enter_def logger_info_def call_close_def
      call_LedgerClient_def)

text \<open>The fake transport, evaluated.\<close>

lemma fake_lib_simps [simp]:
  "lw_raw_exchange (fake_lib respond) c apdu d = (respond apdu, d)"
  "lw_write (fake_lib respond) c apdu d = (Inr (), d\<lparr>pending := pending d @ [respond apdu]\<rparr>)"
  "lw_read (fake_lib respond) c t d =
     (case pending d of [] \<Rightarrow> (Inl (OtherException ''timeout''), d) | r # rs \<Rightarrow> (r, d\<lparr>pending := rs\<rparr>))"
  "lw_close (fake_lib respond) c d = (Inr (), d)"
  "lw_LedgerClient (fake_lib respond) d =
     (if failures d > 0 then (Inl (OtherException ''no device''), d\<lparr>failures := failures d - 1\<rparr>)
      else (Inr fake_client, d))"
  by (simp_all add: fake_lib_def)

lemma open_backend_simps [simp]:
  "client open_backend = Some fake_client"
  "raise_policy open_backend = RAISE_ALL_BUT_0x9000"
  "last_async_response open_backend = None"
  "logger open_backend = None"
  by (simp_all add: open_backend_def new_backend_def init_def)

section \<open>The raise policy\<close>

text \<open>
  C2. For every status word, \<open>is_raise_required\<close> is false under \<open>RAISE_NOTHING\<close>, true
  under \<open>RAISE_ALL_BUT_0x9000\<close> exactly when the status differs from \<open>0x9000\<close>, and true
  under \<open>RAISE_ALL\<close>. It only reads the backend: its result is a truth value and no state.
\<close>

theorem is_raise_required_policy:
  "is_raise_required self rapdu =
     (case raise_policy self of
        RAISE_NOTHING \<Rightarrow> False
      | RAISE_ALL_BUT_0x9000 \<Rightarrow> status rapdu \<noteq> 0x9000
      | RAISE_ALL \<Rightarrow> True)"
  by (cases "raise_policy self") (simp_all add: is_raise_required_def)

text \<open>
  C3. Whenever \<open>receive\<close>, \<open>exchange_raw\<close> or \<open>exchange\<close> has decoded a response, it
  raises \<open>ExceptionRAPDU\<close> (the spec's \<open>DeviceRejected\<close>) with exactly the decoded status
  and payload if \<open>is_raise_required\<close> holds of it under the backend's policy, and
  otherwise returns the decoded response.
\<close>

theorem raise_policy_applied:
  assumes "client self = Some c"
  shows "(lw_read lib c (if device c = HidDevice then Some 1000 else None) (dev w) = (Inr raw, d) \<longrightarrow>
            fst (receive lib (self, w)) =
              (if is_raise_required self (decode raw)
               then Inl (ExceptionRAPDU (status (decode raw)) (data (decode raw)))
               else Inr (decode raw)))
       \<and> (lw_raw_exchange lib c apdu (dev w) = (Inr raw, d) \<longrightarrow>
            fst (exchange_raw lib apdu (self, w)) =
              (if is_raise_required self (decode raw)
               then Inl (ExceptionRAPDU (status (decode raw)) (data (decode raw)))
               else Inr (decode raw)))
       \<and> (pack_APDU cla ins p1 p2 payload = Inr apdu
            \<and> lw_raw_exchange lib c apdu (dev w) = (Inr raw, d) \<longrightarrow>
            fst (exchange lib cla ins p1 p2 payload (self, w)) =
              (if is_raise_required self (decode raw)
               then Inl (ExceptionRAPDU (status (decode raw)) (data (decode raw)))
               else Inr (decode raw)))"
  using assms
  by (simp add: receive_Inr exchange_raw_Inr exchange_def)

theorem raise_policy_applied_witness:
  "fst (receive (fake_lib (\<lambda>a. Inr [0x6F, 0x00]))
          (open_backend, (fake_world 0)\<lparr>dev := \<lparr>pending = [Inr [0x6F, 0x00]], failures = 0\<rparr>\<rparr>))
     = Inl (ExceptionRAPDU 0x6F00 [])
   \<and> fst (exchange_raw (fake_lib (\<lambda>a. Inr [0x6F, 0x00])) [0xE0, 0x01, 0, 0, 0]
          (open_backend\<lparr>raise_policy := RAISE_NOTHING\<rparr>, fake_world 0))
     = Inr \<lparr>status = 0x6F00, data = []\<rparr>
   \<and> fst (exchange (fake_lib (\<lambda>a. Inr [0x01, 0x02, 0x90, 0x00])) 0xE0 0x01 0 0 []
          (open_backend, fake_world 0))
     = Inr \<lparr>status = 0x9000, data = [0x01, 0x02]\<rparr>"
  using raise_policy_applied [where self = open_backend and c = fake_client
      and lib = "fake_lib (\<lambda>a. Inr [0x6F, 0x00])"
      and w = "(fake_world 0)\<lparr>dev := \<lparr>pending = [Inr [0x6F, 0x00]], failures = 0\<rparr>\<rparr>"
      and raw = "[0x6F, 0x00]" and d = "\<lparr>pending = [], failures = 0\<rparr>"]
    raise_policy_applied [where self = "open_backend\<lparr>raise_policy := RAISE_NOTHING\<rparr>"
      and c = fake_client and lib = "fake_lib (\<lambda>a. Inr [0x6F, 0x00])" and w = "fake_world 0"
      and apdu = "[0xE0, 0x01, 0, 0, 0]" and raw = "[0x6F, 0x00]"
      and d = "\<lparr>pending = [], failures = 0\<rparr>"]
    raise_policy_applied [where self = open_backend and c = fake_client
      and lib = "fake_lib (\<lambda>a. Inr [0x01, 0x02, 0x90, 0x00])" and w = "fake_world 0"
      and apdu = "[0xE0, 0x01, 0, 0, 0]" and raw = "[0x01, 0x02, 0x90, 0x00]"
      and d = "\<lparr>pending = [], failures = 0\<rparr>"
      and cla = "0xE0" and ins = "0x01" and ?p1.0 = 0 and ?p2.0 = 0 and payload = "[]"]
  by (simp add: fake_world_def fake_client_def decode_def from_bytes_big_def is_raise_required_def
      pack_APDU_def)

section \<open>Faults of the channel\<close>

text \<open>
  C4. When the library raises \<open>CommException\<close> with a status and a payload in \<open>receive\<close>
  or \<open>exchange_raw\<close>, the pair becomes an ordinary response: it is raised as
  \<open>ExceptionRAPDU\<close> or returned, as the raise policy decides, and no \<open>CommException\<close>
  leaves the operation.
\<close>

theorem comm_fault_becomes_response:
  assumes "client self = Some c"
  shows "(lw_read lib c (if device c = HidDevice then Some 1000 else None) (dev w)
              = (Inl (CommException sw dat), d) \<longrightarrow>
            fst (receive lib (self, w)) =
              (if is_raise_required self \<lparr>status = sw, data = dat\<rparr>
               then Inl (ExceptionRAPDU sw dat)
               else Inr \<lparr>status = sw, data = dat\<rparr>)
            \<and> (\<forall>sw' dat'. fst (receive lib (self, w)) \<noteq> Inl (CommException sw' dat')))
       \<and> (lw_raw_exchange lib c apdu (dev w) = (Inl (CommException sw dat), d) \<longrightarrow>
            fst (exchange_raw lib apdu (self, w)) =
              (if is_raise_required self \<lparr>status = sw, data = dat\<rparr>
               then Inl (ExceptionRAPDU sw dat)
               else Inr \<lparr>status = sw, data = dat\<rparr>)
            \<and> (\<forall>sw' dat'. fst (exchange_raw lib apdu (self, w)) \<noteq> Inl (CommException sw' dat')))"
  using assms
  by (simp add: receive_CommException exchange_raw_CommException)

theorem comm_fault_becomes_response_witness:
  "fst (receive (fake_lib (\<lambda>a. Inl (CommException 0x6985 [0xAA])))
          (open_backend, (fake_world 0)\<lparr>dev := \<lparr>pending = [Inl (CommException 0x6985 [0xAA])], failures = 0\<rparr>\<rparr>))
     = Inl (ExceptionRAPDU 0x6985 [0xAA])
   \<and> fst (exchange_raw (fake_lib (\<lambda>a. Inl (CommException 0x6985 [0xAA]))) [0xE0, 0x01, 0, 0, 0]
          (open_backend\<lparr>raise_policy := RAISE_NOTHING\<rparr>, fake_world 0))
     = Inr \<lparr>status = 0x6985, data = [0xAA]\<rparr>"
  using comm_fault_becomes_response [where self = open_backend and c = fake_client
      and lib = "fake_lib (\<lambda>a. Inl (CommException 0x6985 [0xAA]))"
      and w = "(fake_world 0)\<lparr>dev := \<lparr>pending = [Inl (CommException 0x6985 [0xAA])], failures = 0\<rparr>\<rparr>"
      and sw = "0x6985" and dat = "[0xAA]" and d = "\<lparr>pending = [], failures = 0\<rparr>"]
    comm_fault_becomes_response [where self = "open_backend\<lparr>raise_policy := RAISE_NOTHING\<rparr>"
      and c = fake_client and lib = "fake_lib (\<lambda>a. Inl (CommException 0x6985 [0xAA]))"
      and w = "fake_world 0" and apdu = "[0xE0, 0x01, 0, 0, 0]"
      and sw = "0x6985" and dat = "[0xAA]" and d = "\<lparr>pending = [], failures = 0\<rparr>"]
  by (simp add: fake_world_def fake_client_def is_raise_required_def)

section \<open>Exchange over an echoing transport\<close>

text \<open>
  C1. For all header bytes and every payload of at most 255 bytes, under \<open>RAISE_NOTHING\<close>
  and over a transport that answers the frame with its payload followed by the two
  big-endian bytes of a status word, \<open>exchange\<close> returns what decoding the answer gives:
  that status word and the payload.
\<close>

theorem exchange_echo:
  assumes "length payload \<le> 255"
    and "raise_policy self = RAISE_NOTHING"
    and "client self = Some c"
    and "pack_APDU cla ins p1 p2 payload = Inr frame"
    and "lw_raw_exchange lib c frame (dev w) = (Inr (transport_echo sw frame), d)"
  shows "fst (exchange lib cla ins p1 p2 payload (self, w)) = Inr (decode (transport_echo sw frame))
       \<and> decode (transport_echo sw frame) = \<lparr>status = uint sw, data = payload\<rparr>"
proof -
  from assms(1,4) have frame: "frame = [cla, ins, p1, p2, of_nat (length payload)] @ payload"
    by (simp add: pack_APDU_def)
  have echo: "transport_echo sw frame = payload @ [ucast (drop_bit 8 sw), ucast sw]"
    by (simp add: transport_echo_def frame)
  have dec: "decode (transport_echo sw frame) = \<lparr>status = uint sw, data = payload\<rparr>"
    unfolding echo decode_append_two by (simp add: status_word_bytes)
  have "\<not> is_raise_required self (decode (transport_echo sw frame))"
    using assms(2) by (simp add: is_raise_required_def)
  then have "fst (exchange_raw lib frame (self, w)) = Inr (decode (transport_echo sw frame))"
    using exchange_raw_Inr [OF assms(3) assms(5)] by simp
  then show ?thesis
    using assms(4) dec by (simp add: exchange_def)
qed

theorem exchange_echo_witness:
  "fst (exchange (fake_lib (\<lambda>a. Inr (transport_echo 0x6F00 a))) 0xE0 0x01 0 0 [0x01, 0x02]
          (open_backend\<lparr>raise_policy := RAISE_NOTHING\<rparr>, fake_world 0))
     = Inr \<lparr>status = 0x6F00, data = [0x01, 0x02]\<rparr>"
proof -
  have p: "pack_APDU 0xE0 0x01 0 0 [0x01, 0x02] = Inr [0xE0, 0x01, 0, 0, 2, 0x01, 0x02]"
    by (simp add: pack_APDU_def)
  show ?thesis
    using exchange_echo [where payload = "[0x01, 0x02]"
        and self = "open_backend\<lparr>raise_policy := RAISE_NOTHING\<rparr>" and c = fake_client
        and cla = "0xE0" and ins = "0x01" and ?p1.0 = 0 and ?p2.0 = 0
        and frame = "[0xE0, 0x01, 0, 0, 2, 0x01, 0x02]"
        and lib = "fake_lib (\<lambda>a. Inr (transport_echo 0x6F00 a))" and w = "fake_world 0"
        and sw = "0x6F00" and d = "\<lparr>pending = [], failures = 0\<rparr>", OF _ _ _ p]
    by (simp add: fake_world_def)
qed

section \<open>Short responses\<close>

text \<open>
  C5, as stated, fails: a raw response of fewer than two bytes is decoded, not refused.
  Under \<open>RAISE_NOTHING\<close> the one-byte response \<open>0x90\<close> read by \<open>receive\<close> and the empty
  response of \<open>exchange_raw\<close> are returned as responses with an empty payload.
\<close>

theorem short_response_counterexample:
  "fst (receive (fake_lib (\<lambda>a. Inr []))
          (open_backend\<lparr>raise_policy := RAISE_NOTHING\<rparr>,
           (fake_world 0)\<lparr>dev := \<lparr>pending = [Inr [0x90]], failures = 0\<rparr>\<rparr>))
     = Inr \<lparr>status = 0x90, data = []\<rparr>
   \<and> fst (exchange_raw (fake_lib (\<lambda>a. Inr [])) [0xE0, 0x01, 0, 0, 0]
          (open_backend\<lparr>raise_policy := RAISE_NOTHING\<rparr>, fake_world 0))
     = Inr \<lparr>status = 0, data = []\<rparr>"
  by (simp add: receive_def exchange_raw_def raise_policy_enforcer_def receive_undecorated_def
      exchange_raw_undecorated_def call_read_def call_raw_exchange_def fake_world_def
      fake_client_def decode_def from_bytes_big_def is_raise_required_def Let_def)

text \<open>
  C5, amended. A raw response of fewer than two bytes decodes to an empty payload and
  the big-endian value of the bytes present as status (0 for the empty response, the
  byte for a one-byte response); \<open>receive\<close> and \<open>exchange_raw\<close> then raise
  \<open>ExceptionRAPDU\<close> with that pair or return it, as the raise policy decides.
\<close>

theorem short_response_decoded:
  assumes "length raw < 2" and "client self = Some c"
  shows "decode raw = \<lparr>status = (case raw of [] \<Rightarrow> 0 | b # _ \<Rightarrow> uint b), data = []\<rparr>
       \<and> (lw_read lib c (if device c = HidDevice then Some 1000 else None) (dev w) = (Inr raw, d) \<longrightarrow>
            fst (receive lib (self, w)) =
              (if is_raise_required self (decode raw)
               then Inl (ExceptionRAPDU (case raw of [] \<Rightarrow> 0 | b # _ \<Rightarrow> uint b) [])
               else Inr (decode raw)))
       \<and> (lw_raw_exchange lib c apdu (dev w) = (Inr raw, d) \<longrightarrow>
            fst (exchange_raw lib apdu (self, w)) =
              (if is_raise_required self (decode raw)
               then Inl (ExceptionRAPDU (case raw of [] \<Rightarrow> 0 | b # _ \<Rightarrow> uint b) [])
               else Inr (decode raw)))"
  using assms(2) decode_short [OF assms(1)]
  by (simp add: receive_Inr exchange_raw_Inr)

theorem short_response_decoded_witness:
  "decode [0x90] = \<lparr>status = 0x90, data = []\<rparr>
   \<and> fst (receive (fake_lib (\<lambda>a. Inr []))
          (open_backend,
           (fake_world 0)\<lparr>dev := \<lparr>pending = [Inr [0x90]], failures = 0\<rparr>\<rparr>))
     = Inl (ExceptionRAPDU 0x90 [])
   \<and> fst (exchange_raw (fake_lib (\<lambda>a. Inr [0x90])) [0xE0, 0x01, 0, 0, 0]
          (open_backend\<lparr>raise_policy := RAISE_NOTHING\<rparr>, fake_world 0))
     = Inr \<lparr>status = 0x90, data = []\<rparr>"
  using short_response_decoded [where raw = "[0x90]" and self = open_backend and c = fake_client
      and lib = "fake_lib (\<lambda>a. Inr [])"
      and w = "(fake_world 0)\<lparr>dev := \<lparr>pending = [Inr [0x90]], failures = 0\<rparr>\<rparr>"
      and d = "\<lparr>pending = [], failures = 0\<rparr>"]
    short_response_decoded [where raw = "[0x90]"
      and self = "open_backend\<lparr>raise_policy := RAISE_NOTHING\<rparr>" and c = fake_client
      and lib = "fake_lib (\<lambda>a. Inr [0x90])" and w = "fake_world 0"
      and apdu = "[0xE0, 0x01, 0, 0, 0]" and d = "\<lparr>pending = [], failures = 0\<rparr>"]
  by (simp add: fake_world_def fake_client_def is_raise_required_def)

section \<open>Oversized payloads\<close>

text \<open>
  C8. A payload of more than 255 bytes makes the encoding fail with \<open>FrameTooLarge\<close>,
  and \<open>send\<close>, \<open>exchange\<close> and \<open>exchange_async\<close> then fail with it leaving the backend
  and the world as they were: no call reaches the transport. A payload of at most 255
  bytes, 255 included, is encoded as the four header bytes, the length and the payload.
\<close>

theorem oversized_payload_rejected:
  "(length payload > 255 \<longrightarrow>
      pack_APDU cla ins p1 p2 payload = Inl FrameTooLarge
      \<and> send lib cla ins p1 p2 payload s = (Inl FrameTooLarge, s)
      \<and> exchange lib cla ins p1 p2 payload s = (Inl FrameTooLarge, s)
      \<and> exchange_async lib cla ins p1 p2 payload block s = (Inl FrameTooLarge, s))
   \<and> (length payload \<le> 255 \<longrightarrow>
      pack_APDU cla ins p1 p2 payload = Inr ([cla, ins, p1, p2, of_nat (length payload)] @ payload))"
  by (simp add: pack_APDU_def send_def exchange_def exchange_async_def)

theorem oversized_payload_rejected_witness:
  "pack_APDU 0xE0 0x01 0 0 (replicate 256 0) = Inl FrameTooLarge
   \<and> send (fake_lib (\<lambda>a. Inr [0x90, 0x00])) 0xE0 0x01 0 0 (replicate 256 0) (open_backend, fake_world 0)
       = (Inl FrameTooLarge, open_backend, fake_world 0)
   \<and> exchange (fake_lib (\<lambda>a. Inr [0x90, 0x00])) 0xE0 0x01 0 0 (replicate 256 0) (open_backend, fake_world 0)
       = (Inl FrameTooLarge, open_backend, fake_world 0)
   \<and> pack_APDU 0xE0 0x01 0 0 (replicate 255 0) = Inr ([0xE0, 0x01, 0, 0, 255] @ replicate 255 0)"
  using oversized_payload_rejected [where payload = "replicate 256 0" and cla = "0xE0" and ins = "0x01"
      and ?p1.0 = 0 and ?p2.0 = 0 and lib = "fake_lib (\<lambda>a. Inr [0x90, 0x00])"
      and s = "(open_backend, fake_world 0)"]
    oversized_payload_rejected [where payload = "replicate 255 0" and cla = "0xE0" and ins = "0x01"
      and ?p1.0 = 0 and ?p2.0 = 0]
  by simp

section \<open>The asynchronous exchange\<close>

text \<open>
  C6, as stated, fails: a block that exits normally does not always leave the received
  response in \<open>last_async_response\<close>. Under the default policy, with the device
  answering \<open>6F 00\<close>, the write and the read are both made, \<open>receive\<close> raises
  \<open>ExceptionRAPDU\<close>, and \<open>last_async_response\<close> is still \<open>None\<close>.
\<close>

theorem exchange_async_counterexample:
  "fst (exchange_async (fake_lib (\<lambda>a. Inr [0x6F, 0x00])) 0xE0 0x01 0 0 []
       (\<lambda>s. (Inr (), s)) (open_backend, fake_world 0))
     = Inl (ExceptionRAPDU 0x6F00 [])
   \<and> calls (snd (snd (exchange_async (fake_lib (\<lambda>a. Inr [0x6F, 0x00])) 0xE0 0x01 0 0 []
       (\<lambda>s. (Inr (), s)) (open_backend, fake_world 0))))
     = [Call_write fake_client [0xE0, 0x01, 0, 0, 0], Call_read fake_client (Some 1000)]
   \<and> last_async_response (fst (snd (exchange_async (fake_lib (\<lambda>a. Inr [0x6F, 0x00])) 0xE0 0x01 0 0 []
       (\<lambda>s. (Inr (), s)) (open_backend, fake_world 0))))
     = None"
  by (simp add: exchange_async_def exchange_async_raw_def pack_APDU_def send_raw_def
      call_write_def receive_def raise_policy_enforcer_def receive_undecorated_def call_read_def
      fake_world_def fake_client_def decode_def from_bytes_big_def is_raise_required_def Let_def)

text \<open>
  C6, amended. In \<open>exchange_async\<close>, for a frame that encodes: if \<open>send_raw\<close> raises, its
  exception is the outcome and the caller's block is not run. Otherwise the block runs on
  the state the completed send has left: the write is the last call recorded and
  \<open>last_async_response\<close> is what it was. If the block raises, its exception and its final
  state are the outcome: nothing is read and \<open>last_async_response\<close> is not assigned. If
  the block returns, \<open>receive\<close> runs on the block's final state, its read recorded after
  every call of the block. A response that \<open>receive\<close> returns is stored in
  \<open>last_async_response\<close>; when \<open>receive\<close> raises, as the raise policy demands for the
  response read or because the transport failed, the exception is passed on and
  \<open>last_async_response\<close> keeps the value it had.
\<close>

theorem exchange_async_ordering:
  assumes "pack_APDU cla ins p1 p2 payload = Inr frame"
  shows "(send_raw lib frame s = (Inl e, s1) \<longrightarrow>
            exchange_async lib cla ins p1 p2 payload block s = (Inl e, s1))
       \<and> (send_raw lib frame s = (Inr (), s1) \<longrightarrow>
            (\<exists>c. client (fst s) = Some c \<and> calls (snd s1) = calls (snd s) @ [Call_write c frame])
            \<and> last_async_response (fst s1) = last_async_response (fst s))
       \<and> (send_raw lib frame s = (Inr (), s1) \<and> block s1 = (Inl e, s2) \<longrightarrow>
            exchange_async lib cla ins p1 p2 payload block s = (Inl e, s2))
       \<and> (send_raw lib frame s = (Inr (), s1) \<and> block s1 = (Inr (), s2)
            \<and> receive lib s2 = (Inl e, s3) \<longrightarrow>
            exchange_async lib cla ins p1 p2 payload block s = (Inl e, s3)
            \<and> last_async_response (fst s3) = last_async_response (fst s2))
       \<and> (send_raw lib frame s = (Inr (), s1) \<and> block s1 = (Inr (), s2)
            \<and> receive lib s2 = (Inr rapdu, s3) \<longrightarrow>
            exchange_async lib cla ins p1 p2 payload block s =
              (Inr (), (fst s3)\<lparr>last_async_response := Some rapdu\<rparr>, snd s3))
       \<and> (send_raw lib frame s = (Inr (), s1) \<and> block s1 = (Inr (), self2, w2)
            \<and> client self2 = Some c2
            \<and> lw_read lib c2 (if device c2 = HidDevice then Some 1000 else None) (dev w2) = (Inr raw, d3) \<longrightarrow>
            exchange_async lib cla ins p1 p2 payload block s =
              (if is_raise_required self2 (decode raw)
               then (Inl (ExceptionRAPDU (status (decode raw)) (data (decode raw))),
                     apdu_logger_debug (Debug_in (data (decode raw)) (status (decode raw))) self2,
                     w2\<lparr>dev := d3,
                        calls := calls w2 @ [Call_read c2 (if device c2 = HidDevice then Some 1000 else None)]\<rparr>)
               else (Inr (),
                     (apdu_logger_debug (Debug_in (data (decode raw)) (status (decode raw))) self2)
                       \<lparr>last_async_response := Some (decode raw)\<rparr>,
                     w2\<lparr>dev := d3,
                        calls := calls w2 @ [Call_read c2 (if device c2 = HidDevice then Some 1000 else None)]\<rparr>)))"
proof -
  have async: "exchange_async lib cla ins p1 p2 payload block s =
      (case send_raw lib frame s of
         (Inl e, s1) \<Rightarrow> (Inl e, s1)
       | (Inr _, s1) \<Rightarrow>
           (case block s1 of
              (Inl e, s2) \<Rightarrow> (Inl e, s2)
            | (Inr _, s2) \<Rightarrow>
                (case receive lib s2 of
                   (Inl e, s3) \<Rightarrow> (Inl e, s3)
                 | (Inr rapdu, self3, w3) \<Rightarrow>
                     (Inr (), self3\<lparr>last_async_response := Some rapdu\<rparr>, w3))))"
    using assms by (simp add: exchange_async_def exchange_async_raw_def)
  have send_failed: "send_raw lib frame s = (Inl e, s1) \<longrightarrow>
      exchange_async lib cla ins p1 p2 payload block s = (Inl e, s1)"
    by (simp add: async)
  have sent: "send_raw lib frame s = (Inr (), s1) \<longrightarrow>
      (\<exists>c. client (fst s) = Some c \<and> calls (snd s1) = calls (snd s) @ [Call_write c frame])
      \<and> last_async_response (fst s1) = last_async_response (fst s)"
    using send_raw_returns [of lib frame s s1] by blast
  have raised: "send_raw lib frame s = (Inr (), s1) \<and> block s1 = (Inl e, s2) \<longrightarrow>
      exchange_async lib cla ins p1 p2 payload block s = (Inl e, s2)"
    by (simp add: async)
  have receive_raised: "send_raw lib frame s = (Inr (), s1) \<and> block s1 = (Inr (), s2)
      \<and> receive lib s2 = (Inl e, s3) \<longrightarrow>
      exchange_async lib cla ins p1 p2 payload block s = (Inl e, s3)
      \<and> last_async_response (fst s3) = last_async_response (fst s2)"
  proof (intro impI, elim conjE)
    assume a: "send_raw lib frame s = (Inr (), s1)" "block s1 = (Inr (), s2)"
      "receive lib s2 = (Inl e, s3)"
    have "exchange_async lib cla ins p1 p2 payload block s = (Inl e, s3)"
      using a by (simp add: async)
    moreover have "last_async_response (fst s3) = last_async_response (fst s2)"
      using receive_keeps_last_async_response [of lib s2] a(3) by simp
    ultimately show "exchange_async lib cla ins p1 p2 payload block s = (Inl e, s3)
      \<and> last_async_response (fst s3) = last_async_response (fst s2)" by simp
  qed
  have received: "send_raw lib frame s = (Inr (), s1) \<and> block s1 = (Inr (), s2)
      \<and> receive lib s2 = (Inr rapdu, s3) \<longrightarrow>
      exchange_async lib cla ins p1 p2 payload block s =
        (Inr (), (fst s3)\<lparr>last_async_response := Some rapdu\<rparr>, snd s3)"
    by (cases s3) (simp add: async)
  have by_policy: "send_raw lib frame s = (Inr (), s1) \<and> block s1 = (Inr (), self2, w2)
      \<and> client self2 = Some c2
      \<and> lw_read lib c2 (if device c2 = HidDevice then Some 1000 else None) (dev w2) = (Inr raw, d3) \<longrightarrow>
      exchange_async lib cla ins p1 p2 payload block s =
        (if is_raise_required self2 (decode raw)
         then (Inl (ExceptionRAPDU (status (decode raw)) (data (decode raw))),
               apdu_logger_debug (Debug_in (data (decode raw)) (status (decode raw))) self2,
               w2\<lparr>dev := d3,
                  calls := calls w2 @ [Call_read c2 (if device c2 = HidDevice then Some 1000 else None)]\<rparr>)
         else (Inr (),
               (apdu_logger_debug (Debug_in (data (decode raw)) (status (decode raw))) self2)
                 \<lparr>last_async_response := Some (decode raw)\<rparr>,
               w2\<lparr>dev := d3,
                  calls := calls w2 @ [Call_read c2 (if device c2 = HidDevice then Some 1000 else None)]\<rparr>))"
    by (auto simp add: async receive_Inr)
  from send_failed sent raised receive_raised received by_policy show ?thesis by blast
qed

theorem exchange_async_ordering_witness:
  "exchange_async (fake_lib (\<lambda>a. Inr [0x01, 0x02, 0x90, 0x00])) 0xE0 0x01 0 0 []
       (\<lambda>s. (Inr (), fst s, call_sleep 1 (snd s))) (new_backend, fake_world 0)
     = (Inl AssertionError, apdu_logger_debug (Debug_out [0xE0, 0x01, 0, 0, 0]) new_backend, fake_world 0)
   \<and> calls (snd (snd (exchange_async (fake_lib (\<lambda>a. Inr [0x01, 0x02, 0x90, 0x00])) 0xE0 0x01 0 0 []
       (\<lambda>s. (Inr (), fst s, call_sleep 1 (snd s))) (open_backend, fake_world 0))))
     = [Call_write fake_client [0xE0, 0x01, 0, 0, 0], Call_sleep 1, Call_read fake_client (Some 1000)]
   \<and> last_async_response (fst (snd (exchange_async (fake_lib (\<lambda>a. Inr [0x01, 0x02, 0x90, 0x00])) 0xE0 0x01 0 0 []
       (\<lambda>s. (Inr (), fst s, call_sleep 1 (snd s))) (open_backend, fake_world 0))))
     = Some \<lparr>status = 0x9000, data = [0x01, 0x02]\<rparr>
   \<and> fst (exchange_async (fake_lib (\<lambda>a. Inr [0x01, 0x02, 0x90, 0x00])) 0xE0 0x01 0 0 []
       (\<lambda>s. (Inl (OtherException ''abort''), s)) (open_backend, fake_world 0))
     = Inl (OtherException ''abort'')
   \<and> calls (snd (snd (exchange_async (fake_lib (\<lambda>a. Inr [0x01, 0x02, 0x90, 0x00])) 0xE0 0x01 0 0 []
       (\<lambda>s. (Inl (OtherException ''abort''), s)) (open_backend, fake_world 0))))
     = [Call_write fake_client [0xE0, 0x01, 0, 0, 0]]
   \<and> last_async_response (fst (snd (exchange_async (fake_lib (\<lambda>a. Inr [0x01, 0x02, 0x90, 0x00])) 0xE0 0x01 0 0 []
       (\<lambda>s. (Inl (OtherException ''abort''), s)) (open_backend, fake_world 0))))
     = None
   \<and> fst (exchange_async (fake_lib (\<lambda>a. Inr [0x6F, 0x00])) 0xE0 0x01 0 0 []
       (\<lambda>s. (Inr (), fst s, call_sleep 1 (snd s))) (open_backend, fake_world 0))
     = Inl (ExceptionRAPDU 0x6F00 [])
   \<and> last_async_response (fst (snd (exchange_async (fake_lib (\<lambda>a. Inr [0x6F, 0x00])) 0xE0 0x01 0 0 []
       (\<lambda>s. (Inr (), fst s, call_sleep 1 (snd s))) (open_backend, fake_world 0))))
     = None"
proof -
  have p: "pack_APDU 0xE0 0x01 0 0 [] = Inr [0xE0, 0x01, 0, 0, 0]"
    by (simp add: pack_APDU_def)
  note send_failed = exchange_async_ordering [where payload = "[]"
      and cla = "0xE0" and ins = "0x01" and ?p1.0 = 0 and ?p2.0 = 0
      and frame = "[0xE0, 0x01, 0, 0, 0]"
      and lib = "fake_lib (\<lambda>a. Inr [0x01, 0x02, 0x90, 0x00])"
      and s = "(new_backend, fake_world 0)"
      and block = "\<lambda>s. (Inr (), fst s, call_sleep 1 (snd s))"
      and e = AssertionError
      and ?s1.0 = "(apdu_logger_debug (Debug_out [0xE0, 0x01, 0, 0, 0]) new_backend, fake_world 0)",
      OF p, THEN conjunct1]
  note returned = exchange_async_ordering [where payload = "[]"
      and cla = "0xE0" and ins = "0x01" and ?p1.0 = 0 and ?p2.0 = 0
      and frame = "[0xE0, 0x01, 0, 0, 0]"
      and lib = "fake_lib (\<lambda>a. Inr [0x01, 0x02, 0x90, 0x00])"
      and s = "(open_backend, fake_world 0)"
      and block = "\<lambda>s. (Inr (), fst s, call_sleep 1 (snd s))"
      and ?s1.0 = "(apdu_logger_debug (Debug_out [0xE0, 0x01, 0, 0, 0]) open_backend,
          \<lparr>dev = \<lparr>pending = [Inr [0x01, 0x02, 0x90, 0x00]], failures = 0\<rparr>,
           calls = [Call_write fake_client [0xE0, 0x01, 0, 0, 0]]\<rparr>)"
      and ?self2.0 = "apdu_logger_debug (Debug_out [0xE0, 0x01, 0, 0, 0]) open_backend"
      and ?w2.0 = "\<lparr>dev = \<lparr>pending = [Inr [0x01, 0x02, 0x90, 0x00]], failures = 0\<rparr>,
          calls = [Call_write fake_client [0xE0, 0x01, 0, 0, 0], Call_sleep 1]\<rparr>"
      and ?c2.0 = fake_client and raw = "[0x01, 0x02, 0x90, 0x00]"
      and ?d3.0 = "\<lparr>pending = [], failures = 0\<rparr>",
      OF p, THEN conjunct2, THEN conjunct2, THEN conjunct2, THEN conjunct2, THEN conjunct2]
  note aborted = exchange_async_ordering [where payload = "[]"
      and cla = "0xE0" and ins = "0x01" and ?p1.0 = 0 and ?p2.0 = 0
      and frame = "[0xE0, 0x01, 0, 0, 0]"
      and lib = "fake_lib (\<lambda>a. Inr [0x01, 0x02, 0x90, 0x00])"
      and s = "(open_backend, fake_world 0)"
      and block = "\<lambda>s. (Inl (OtherException ''abort''), s)"
      and e = "OtherException ''abort''"
      and ?s1.0 = "(apdu_logger_debug (Debug_out [0xE0, 0x01, 0, 0, 0]) open_backend,
          \<lparr>dev = \<lparr>pending = [Inr [0x01, 0x02, 0x90, 0x00]], failures = 0\<rparr>,
           calls = [Call_write fake_client [0xE0, 0x01, 0, 0, 0]]\<rparr>)"
      and ?s2.0 = "(apdu_logger_debug (Debug_out [0xE0, 0x01, 0, 0, 0]) open_backend,
          \<lparr>dev = \<lparr>pending = [Inr [0x01, 0x02, 0x90, 0x00]], failures = 0\<rparr>,
           calls = [Call_write fake_client [0xE0, 0x01, 0, 0, 0]]\<rparr>)",
      OF p, THEN conjunct2, THEN conjunct2, THEN conjunct1]
  note refused = exchange_async_ordering [where payload = "[]"
      and cla = "0xE0" and ins = "0x01" and ?p1.0 = 0 and ?p2.0 = 0
      and frame = "[0xE0, 0x01, 0, 0, 0]"
      and lib = "fake_lib (\<lambda>a. Inr [0x6F, 0x00])"
      and s = "(open_backend, fake_world 0)"
      and block = "\<lambda>s. (Inr (), fst s, call_sleep 1 (snd s))"
      and ?s1.0 = "(apdu_logger_debug (Debug_out [0xE0, 0x01, 0, 0, 0]) open_backend,
          \<lparr>dev = \<lparr>pending = [Inr [0x6F, 0x00]], failures = 0\<rparr>,
           calls = [Call_write fake_client [0xE0, 0x01, 0, 0, 0]]\<rparr>)"
      and ?self2.0 = "apdu_logger_debug (Debug_out [0xE0, 0x01, 0, 0, 0]) open_backend"
      and ?w2.0 = "\<lparr>dev = \<lparr>pending = [Inr [0x6F, 0x00]], failures = 0\<rparr>,
          calls = [Call_write fake_client [0xE0, 0x01, 0, 0, 0], Call_sleep 1]\<rparr>"
      and ?c2.0 = fake_client and raw = "[0x6F, 0x00]"
      and ?d3.0 = "\<lparr>pending = [], failures = 0\<rparr>",
      OF p, THEN conjunct2, THEN conjunct2, THEN conjunct2, THEN conjunct2, THEN conjunct2]
  show ?thesis
    using send_failed returned aborted refused
    by (simp add: send_raw_def call_write_def new_backend_def init_def fake_world_def
        fake_client_def call_sleep_def decode_def from_bytes_big_def is_raise_required_def
        apdu_logger_debug_def Let_def)
qed

section \<open>The user interface on the USB backend\<close>

text \<open>
  C10. On \<open>LedgerWalletBackend\<close> the screen comparisons answer \<open>True\<close> whatever their
  arguments, \<open>get_current_screen_content\<close> answers the empty list, and the clicks and the
  finger touch return; none of them changes the backend or the world, so none calls the
  device.
\<close>

theorem screen_queries_constant:
  "right_click s = ((), s)
   \<and> left_click s = ((), s)
   \<and> both_click s = ((), s)
   \<and> finger_touch x y delay s = ((), s)
   \<and> compare_screen_with_snapshot golden_snap_path crop tmp_snap_path golden_run s = (True, s)
   \<and> compare_screen_with_text txt s = (True, s)
   \<and> get_current_screen_content s = ([], s)"
  by (simp add: right_click_def left_click_def both_click_def finger_touch_def
      compare_screen_with_snapshot_def compare_screen_with_text_def get_current_screen_content_def)

section \<open>Opening and resetting\<close>

text \<open>
  C7. \<open>__enter__\<close> reads \<open>self.logger\<close> before it constructs the client. On a backend
  as the constructors build it the attribute is absent, so \<open>__enter__\<close> raises
  \<open>AttributeError\<close> and makes no call to the library, whether the transport would fail
  once, always or never.
\<close>

theorem enter_raises_AttributeError:
  "enter lib (init apdu0 fw log_apdu_file, w)
     = (Inl (AttributeError ''logger''), init apdu0 fw log_apdu_file, w)
   \<and> enter (fake_lib respond) (new_backend, fake_world 1)
     = (Inl (AttributeError ''logger''), new_backend, fake_world 1)"
  by (simp add: enter_def logger_info_def logger_init new_backend_def)

text \<open>
  C9. \<open>handle_usb_reset\<close> reads \<open>self.logger\<close> first. On a backend without the attribute
  it raises \<open>AttributeError\<close> before \<open>__exit__\<close> and \<open>__enter__\<close> are called: the client
  is neither closed nor replaced.
\<close>

theorem handle_usb_reset_raises_AttributeError:
  "handle_usb_reset lib (self\<lparr>logger := None\<rparr>, w)
     = (Inl (AttributeError ''logger''), self\<lparr>logger := None\<rparr>, w)
   \<and> handle_usb_reset (fake_lib respond) (open_backend, fake_world 0)
     = (Inl (AttributeError ''logger''), open_backend, fake_world 0)"
  by (simp add: handle_usb_reset_def logger_info_def)

end
